theory Spec2Isabelle
  imports Main
begin

section \<open>Data model of the main window (src/gui/MainWindow.cpp)\<close>

text \<open>
  A \<open>QString\<close> is modelled as a \<open>string\<close>, one \<open>char\<close> per code unit.  The
  identities, timestamps and status words the program compares are ASCII.  The few symbols
  outside ASCII that the program splices into texts it later inspects are named constants of
  the length they have in a \<open>QString\<close> (a surrogate pair is two code units, each written
  here as its high byte).
\<close>

definition lock_symbol :: string where
  "lock_symbol = [CHR 0xD8, CHR 0xDD]"

definition person_symbol :: string where
  "person_symbol = [CHR 0xD8, CHR 0xDC]"

text \<open>
  \<open>message_info_t\<close> is declared by the messenger core; the window reads the fields
  \<open>id\<close>, \<open>sender\<close>, \<open>recipient\<close>, \<open>timestamp\<close> and \<open>status\<close>, the last one a
  pointer that may be null.  The identifier of a stored message is an integer of any
  size; the window holds identifiers in C \<open>int\<close>s, and the poll tick gets there with
  \<open>atoi\<close>.
\<close>

record message_info =
  msg_id :: int
  msg_sender :: string
  msg_recipient :: string
  msg_timestamp :: string
  msg_status :: "string option"

datatype contact_type = TYPE_CONTACT | TYPE_GROUP

text \<open>The metadata kept for every entry of the contact list (\<open>contactItems\<close>).\<close>

record contact_item =
  item_type :: contact_type
  item_name :: string
  item_groupId :: int

text \<open>
  The branch of the status chain a sent message takes (\<open>status == "read"\<close>,
  \<open>status == "delivered"\<close>, otherwise), and the checkmark span built in that branch:
  its colour and the number of check signs.
\<close>

datatype status_badge = Pending | Delivered | Read

datatype span = Span string nat

text \<open>The two bubble palettes: \<open>currentTheme == "club"\<close> and everything else.\<close>

datatype palette = Club | Io

text \<open>
  What the message display holds: one value per \<open>setHtml\<close>/\<open>append\<close> call, the
  constructor naming the HTML template and the fields holding the arguments handed to
  \<open>QString::arg\<close>, in the order sender, time, checkmark, text.  The font sizes, products
  of the floating-point font scale, are left out, and so is the placeholder substitution
  itself.
\<close>

datatype html =
    ConversationHeader string
  | GroupHeader string
  | GroupHeaderGeneric
  | NoMessagesYet
  | FailedToLoadConversation
  | FailedToLoadGroupConversation
  | SentBubble palette string span string
  | ReceivedBubble palette string string string

datatype status_text =
    StatusNone
  | LoadedMessagesWith nat string
  | ErrorLoadingConversation
  | LoadedGroupMessages nat
  | ErrorLoadingGroupConversation
  | MessageSent
  | MessageSendFailed
  | MessagesRefreshed
  | RecipientsAdded nat

datatype recipients_text = ToNobody | ToContacts string "string list" | ToGroup string

text \<open>
  Every call that leaves the window (messenger core, message store, tray icon, sound, modal
  boxes) is appended to a trace, in program order.
\<close>

datatype event =
    GetConversation string
  | GetGroupInfo int
  | GetGroupConversation int
  | DecryptMessage int
  | MarkDelivered int
  | MarkConversationRead string
  | SendMessage "string list" string
  | SendGroupMessage int string
  | QueryNewMessages string int
  | QueryStatusCount string string
  | GetContactList
  | PlaySound
  | ShowMessage string string
  | WarningBox string
  | CriticalBox string
  | AddRecipientsDialog "(string \<times> bool) list"

text \<open>
  The answers of the collaborators during one handler.  \<open>None\<close> is a non-zero return code
  (or, for the store, a result status other than \<open>PGRES_TUPLES_OK\<close>).

  \<open>freed_text\<close> is the memory the window no longer owns: the two pollers build their
  query parameters as \<open>text.toUtf8().constData()\<close> (lines 1092-1095 and 1152-1155), a
  pointer into a temporary \<open>QByteArray\<close> that is destroyed at the end of the declaration,
  before \<open>PQexecParams\<close> reads through it.  \<open>freed_text w t\<close> is what is read there
  when the buffer held \<open>t\<close>; it is \<open>t\<close> itself only in a world that has left the released
  buffer alone.  (onSendMessage keeps its byte arrays alive, line 997, and needs no such
  reading.)
\<close>

record world =
  get_conversation :: "string \<Rightarrow> message_info list option"
  get_group_info :: "int \<Rightarrow> string option"
  get_group_conversation :: "int \<Rightarrow> message_info list option"
  decrypt_message :: "int \<Rightarrow> string option"
  send_message :: "string list \<Rightarrow> string \<Rightarrow> int"
  send_group_message :: "int \<Rightarrow> string \<Rightarrow> int"
  messages_table :: "message_info list option"
  get_contact_list :: "string list option"
  dialog_accepted :: bool
  dialog_selection :: "string set"
  current_time :: string
  freed_text :: "string \<Rightarrow> string"

record main_window =
  ctx :: bool
  currentIdentity :: string
  currentContact :: string
  currentGroupId :: int
  currentContactType :: contact_type
  contactItems :: "string \<Rightarrow> contact_item option"
  additionalRecipients :: "string list"
  lastCheckedMessageId :: int
  currentTheme :: string
  messageInput :: string
  messageDisplay :: "html list"
  statusLabel :: status_text
  recipientsLabel :: recipients_text
  trace :: "event list"

section \<open>Qt string helpers\<close>

definition mid :: "nat \<Rightarrow> nat \<Rightarrow> string \<Rightarrow> string" where
  "mid pos n str = take n (drop pos str)"

fun toHtmlEscaped :: "string \<Rightarrow> string" where
  "toHtmlEscaped [] = []"
| "toHtmlEscaped (c # cs) =
     (if c = CHR ''<'' then ''&lt;''
      else if c = CHR ''>'' then ''&gt;''
      else if c = CHR ''&'' then ''&amp;''
      else if c = CHR 0x22 then ''&quot;''
      else [c]) @ toHtmlEscaped cs"

text \<open>
  \<open>QChar::isSpace\<close> on the code units a \<open>char\<close> can hold: the blank, the controls
  9 to 13, the next-line control and the no-break space.
\<close>

definition isSpace :: "char \<Rightarrow> bool" where
  "isSpace c = (c = CHR 0x20 \<or> c = CHR 0x09 \<or> c = CHR 0x0A \<or> c = CHR 0x0B
                \<or> c = CHR 0x0C \<or> c = CHR 0x0D \<or> c = CHR 0x85 \<or> c = CHR 0xA0)"

definition trimmed :: "string \<Rightarrow> string" where
  "trimmed str = rev (dropWhile isSpace (rev (dropWhile isSpace str)))"

section \<open>Reading an identifier with atoi (line 1107)\<close>

text \<open>
  The store hands out an identifier as decimal text; the number that text denotes is an
  integer of any size.  \<open>atoi\<close> turns it into a C \<open>int\<close>.  For a number that fits it is
  the identity; C leaves the rest undefined, and the model takes what the GNU C library on
  a 64-bit system does: \<open>strtol\<close> clamps to the range of \<open>long\<close> and the conversion to
  \<open>int\<close> keeps the low 32 bits.
\<close>

definition INT_MAX :: int where
  "INT_MAX = 2147483647"

definition INT_MIN :: int where
  "INT_MIN = - 2147483648"

definition LONG_MAX :: int where
  "LONG_MAX = 9223372036854775807"

definition LONG_MIN :: int where
  "LONG_MIN = - 9223372036854775808"

definition strtol :: "int \<Rightarrow> int" where
  "strtol v = (if v < LONG_MIN then LONG_MIN else if v > LONG_MAX then LONG_MAX else v)"

definition int_of_long :: "int \<Rightarrow> int" where
  "int_of_long v = (v + 2147483648) mod 4294967296 - 2147483648"

definition atoi :: "int \<Rightarrow> int" where
  "atoi v = int_of_long (strtol v)"

section \<open>Display and trace primitives\<close>

definition display_clear :: "main_window \<Rightarrow> main_window" where
  "display_clear s = s\<lparr>messageDisplay := []\<rparr>"

definition display_setHtml :: "html \<Rightarrow> main_window \<Rightarrow> main_window" where
  "display_setHtml h s = s\<lparr>messageDisplay := [h]\<rparr>"

definition display_append :: "html \<Rightarrow> main_window \<Rightarrow> main_window" where
  "display_append h s = s\<lparr>messageDisplay := messageDisplay s @ [h]\<rparr>"

definition emit :: "event \<Rightarrow> main_window \<Rightarrow> main_window" where
  "emit e s = s\<lparr>trace := trace s @ [e]\<rparr>"

definition bubble_palette :: "main_window \<Rightarrow> palette" where
  "bubble_palette s = (if currentTheme s = ''club'' then Club else Io)"

section \<open>Status checkmark of a sent message (loadConversation, lines 749-766)\<close>

definition classify :: "string option \<Rightarrow> status_badge" where
  "classify raw =
     (let status = (case raw of Some st \<Rightarrow> st | None \<Rightarrow> ''sent'')
      in if status = ''read'' then Read
         else if status = ''delivered'' then Delivered
         else Pending)"

definition statusCheckmark :: "main_window \<Rightarrow> status_badge \<Rightarrow> span" where
  "statusCheckmark s b =
     (case b of
        Read \<Rightarrow> (if currentTheme s = ''club'' then Span ''#FF8C42'' 2 else Span ''#00D9FF'' 2)
      | Delivered \<Rightarrow> Span ''#888888'' 2
      | Pending \<Rightarrow> Span ''#888888'' 1)"

section \<open>loadConversation\<close>

text \<open>
  Lines 735-746: the text of one message.  The decrypt call is made, and traced, only when
  the local identity is the recipient or the sender.
\<close>

definition canAttemptDecrypt :: "main_window \<Rightarrow> message_info \<Rightarrow> bool" where
  "canAttemptDecrypt s m =
     (msg_recipient m = currentIdentity s \<or> msg_sender m = currentIdentity s)"

definition decrypted_text :: "world \<Rightarrow> message_info \<Rightarrow> string" where
  "decrypted_text w m =
     (case decrypt_message w (msg_id m) of
        Some plaintext \<Rightarrow> plaintext
      | None \<Rightarrow> lock_symbol @ '' [decryption failed]'')"

definition conversation_text :: "world \<Rightarrow> message_info \<Rightarrow> main_window \<Rightarrow> string \<times> main_window" where
  "conversation_text w m s =
     (if canAttemptDecrypt s m
      then (decrypted_text w m, emit (DecryptMessage (msg_id m)) s)
      else (''[encrypted]'', s))"

text \<open>Lines 725-825: one iteration of the message loop.\<close>

definition conversation_bubble :: "main_window \<Rightarrow> message_info \<Rightarrow> string \<Rightarrow> html" where
  "conversation_bubble s m messageText =
     (let timeOnly = mid 11 5 (msg_timestamp m)
      in if msg_sender m = currentIdentity s
         then SentBubble (bubble_palette s) timeOnly
                (statusCheckmark s (classify (msg_status m))) (toHtmlEscaped messageText)
         else ReceivedBubble (bubble_palette s) (msg_sender m) timeOnly
                (toHtmlEscaped messageText))"

definition conversation_step :: "world \<Rightarrow> message_info \<Rightarrow> main_window \<Rightarrow> main_window" where
  "conversation_step w m s =
     (case conversation_text w m s of
        (messageText, s') \<Rightarrow> display_append (conversation_bubble s' m messageText) s')"

fun conversation_loop :: "world \<Rightarrow> message_info list \<Rightarrow> main_window \<Rightarrow> main_window" where
  "conversation_loop w [] s = s"
| "conversation_loop w (m # ms) s = conversation_loop w ms (conversation_step w m s)"

definition loadConversation :: "world \<Rightarrow> string \<Rightarrow> main_window \<Rightarrow> main_window" where
  "loadConversation w contact s =
     (let s1 = display_clear s
      in if contact = [] then s1
         else
           let s2 = display_setHtml (ConversationHeader contact) s1;
               s3 = emit (GetConversation contact) s2
           in case get_conversation w contact of
                Some messages \<Rightarrow>
                  (let s4 = (if length messages = 0 then display_append NoMessagesYet s3
                             else conversation_loop w messages s3)
                   in s4\<lparr>statusLabel := LoadedMessagesWith (length messages) contact\<rparr>)
              | None \<Rightarrow>
                  (display_append FailedToLoadConversation s3)
                    \<lparr>statusLabel := ErrorLoadingConversation\<rparr>)"

section \<open>loadGroupConversation\<close>

text \<open>Lines 898-907: the text of one group message; the decrypt call is unconditional.\<close>

definition group_text :: "world \<Rightarrow> message_info \<Rightarrow> main_window \<Rightarrow> string \<times> main_window" where
  "group_text w m s = (decrypted_text w m, emit (DecryptMessage (msg_id m)) s)"

definition group_bubble :: "main_window \<Rightarrow> message_info \<Rightarrow> string \<Rightarrow> html" where
  "group_bubble s m messageText =
     (let timeOnly = mid 11 5 (msg_timestamp m)
      in if msg_sender m = currentIdentity s
         then SentBubble (bubble_palette s) timeOnly (Span ''#888888'' 1)
                (toHtmlEscaped messageText)
         else ReceivedBubble (bubble_palette s) (msg_sender m) timeOnly
                (toHtmlEscaped messageText))"

definition group_step :: "world \<Rightarrow> message_info \<Rightarrow> main_window \<Rightarrow> main_window" where
  "group_step w m s =
     (case group_text w m s of
        (messageText, s') \<Rightarrow> display_append (group_bubble s' m messageText) s')"

fun group_loop :: "world \<Rightarrow> message_info list \<Rightarrow> main_window \<Rightarrow> main_window" where
  "group_loop w [] s = s"
| "group_loop w (m # ms) s = group_loop w ms (group_step w m s)"

definition loadGroupConversation :: "world \<Rightarrow> int \<Rightarrow> main_window \<Rightarrow> main_window" where
  "loadGroupConversation w groupId s =
     (let s1 = display_clear s
      in if groupId < 0 then s1
         else
           let s2 = emit (GetGroupInfo groupId) s1;
               s3 = (case get_group_info w groupId of
                       Some name \<Rightarrow> display_setHtml (GroupHeader name) s2
                     | None \<Rightarrow> display_setHtml GroupHeaderGeneric s2);
               s4 = emit (GetGroupConversation groupId) s3
           in case get_group_conversation w groupId of
                Some messages \<Rightarrow>
                  (let s5 = (if length messages = 0 then display_append NoMessagesYet s4
                             else group_loop w messages s4)
                   in s5\<lparr>statusLabel := LoadedGroupMessages (length messages)\<rparr>)
              | None \<Rightarrow>
                  (display_append FailedToLoadGroupConversation s4)
                    \<lparr>statusLabel := ErrorLoadingGroupConversation\<rparr>)"

section \<open>onSendMessage\<close>

text \<open>
  Lines 996-1008: the recipient list handed to the messenger core, the current contact
  first, then the additional recipients in their order.
\<close>

fun append_recipients :: "string list \<Rightarrow> string list \<Rightarrow> string list" where
  "append_recipients recipients [] = recipients"
| "append_recipients recipients (r # rs) = append_recipients (recipients @ [r]) rs"

definition build_recipients :: "main_window \<Rightarrow> string list" where
  "build_recipients s = append_recipients [currentContact s] (additionalRecipients s)"

text \<open>Lines 1021-1065: what follows the send call, by its return code.\<close>

definition send_finish :: "world \<Rightarrow> string \<Rightarrow> int \<Rightarrow> main_window \<Rightarrow> main_window" where
  "send_finish w message result s =
     (if result = 0
      then (display_append
              (SentBubble (bubble_palette s) (current_time w) (Span ''#888888'' 1)
                 (toHtmlEscaped message)) s)
             \<lparr>messageInput := [], statusLabel := MessageSent\<rparr>
      else (emit (CriticalBox ''Send Failed'') s)\<lparr>statusLabel := MessageSendFailed\<rparr>)"

definition onSendMessage :: "world \<Rightarrow> main_window \<Rightarrow> main_window" where
  "onSendMessage w s =
     (let message = trimmed (messageInput s)
      in if message = [] then s
         else if currentContactType s = TYPE_GROUP \<and> currentGroupId s \<ge> 0
         then send_finish w message (send_group_message w (currentGroupId s) message)
                (emit (SendGroupMessage (currentGroupId s) message) s)
         else if currentContactType s = TYPE_CONTACT \<and> currentContact s \<noteq> []
         then (let recipients = build_recipients s
               in send_finish w message (send_message w recipients message)
                    (emit (SendMessage recipients message) s))
         else emit (WarningBox ''No Selection'') s)"

section \<open>checkForNewMessages\<close>

text \<open>
  Lines 1086-1097: the query \<open>SELECT id, sender, created_at FROM messages WHERE recipient =
  $1 AND id > $2 ORDER BY id ASC\<close> over the rows of the messages table.  The store
  compares the identifiers themselves; a row comes back with the number its identifier
  text denotes.  The second parameter is the cursor printed with \<open>%d\<close>; the first is
  read through the pointer into the released copy of the local identity.
\<close>

definition new_messages_query ::
  "message_info list \<Rightarrow> string \<Rightarrow> int \<Rightarrow> (int \<times> string \<times> string) list" where
  "new_messages_query table recipient after =
     map (\<lambda>m. (msg_id m, msg_sender m, msg_timestamp m))
       (sort_key msg_id
          (filter (\<lambda>m. msg_recipient m = recipient \<and> msg_id m > after) table))"

text \<open>Lines 1107-1133: one iteration of the row loop.\<close>

definition poll_step :: "world \<Rightarrow> int \<times> string \<times> string \<Rightarrow> main_window \<Rightarrow> main_window" where
  "poll_step w row s =
     (case row of (idText, sender, timestamp) \<Rightarrow>
        let msgId = atoi idText;
            s1 = (if msgId > lastCheckedMessageId s
                  then s\<lparr>lastCheckedMessageId := msgId\<rparr> else s);
            s2 = emit (MarkDelivered msgId) s1;
            s3 = emit PlaySound s2;
            s4 = emit (ShowMessage sender timestamp) s3
        in if currentContact s4 = sender then loadConversation w (currentContact s4) s4
           else s4)"

fun poll_loop :: "world \<Rightarrow> (int \<times> string \<times> string) list \<Rightarrow> main_window \<Rightarrow> main_window" where
  "poll_loop w [] s = s"
| "poll_loop w (row # rows) s = poll_loop w rows (poll_step w row s)"

definition checkForNewMessages :: "world \<Rightarrow> main_window \<Rightarrow> main_window" where
  "checkForNewMessages w s =
     (if \<not> ctx s \<or> currentIdentity s = [] then s
      else
        let recipient = freed_text w (currentIdentity s);
            s1 = emit (QueryNewMessages recipient (lastCheckedMessageId s)) s
        in case messages_table w of
             None \<Rightarrow> s1
           | Some table \<Rightarrow>
               poll_loop w (new_messages_query table recipient (lastCheckedMessageId s)) s1)"

text \<open>
  The rows one tick receives, and a run of ticks: every tick meets its own world, the
  window state is carried from tick to tick.  The identifiers observed are those of the
  rows the store returned, as the store has them.
\<close>

definition tick_rows :: "world \<Rightarrow> main_window \<Rightarrow> (int \<times> string \<times> string) list" where
  "tick_rows w s =
     (if \<not> ctx s \<or> currentIdentity s = [] then []
      else case messages_table w of
             None \<Rightarrow> []
           | Some table \<Rightarrow>
               new_messages_query table (freed_text w (currentIdentity s))
                 (lastCheckedMessageId s))"

fun poll_ticks :: "world list \<Rightarrow> main_window \<Rightarrow> main_window" where
  "poll_ticks [] s = s"
| "poll_ticks (w # ws) s = poll_ticks ws (checkForNewMessages w s)"

fun observed_ids :: "world list \<Rightarrow> main_window \<Rightarrow> int list" where
  "observed_ids [] s = []"
| "observed_ids (w # ws) s =
     map fst (tick_rows w s) @ observed_ids ws (checkForNewMessages w s)"

section \<open>onAddRecipients\<close>

text \<open>
  Lines 1861-1877: the items of the selection list, one per contact other than the current
  contact and the local identity, each with its text and whether it starts selected.
\<close>

fun recipient_items :: "main_window \<Rightarrow> string list \<Rightarrow> (string \<times> bool) list" where
  "recipient_items s [] = []"
| "recipient_items s (contact # identities) =
     (if contact \<noteq> currentContact s \<and> contact \<noteq> currentIdentity s
      then [(person_symbol @ '' '' @ contact, contact \<in> set (additionalRecipients s))]
      else []) @ recipient_items s identities"

text \<open>Lines 1901-1904: the contact named by an item text.\<close>

definition item_contact :: "string \<Rightarrow> string" where
  "item_contact text =
     (if take (length (person_symbol @ '' '')) text = person_symbol @ '' ''
      then drop 3 text else text)"

text \<open>
  Lines 1897-1907.  The user's picks are a set of contact names: when the dialog closes, an
  item is selected exactly if the contact it shows is one of them.
\<close>

fun selected_recipients :: "string set \<Rightarrow> (string \<times> bool) list \<Rightarrow> string list" where
  "selected_recipients picks [] = []"
| "selected_recipients picks (item # items) =
     (if item_contact (fst item) \<in> picks then [item_contact (fst item)] else [])
     @ selected_recipients picks items"

definition onAddRecipients :: "world \<Rightarrow> main_window \<Rightarrow> main_window" where
  "onAddRecipients w s =
     (if currentContact s = [] then emit (WarningBox ''No Contact Selected'') s
      else
        let s1 = emit GetContactList s;
            items = (case get_contact_list w of
                       Some identities \<Rightarrow> recipient_items s1 identities
                     | None \<Rightarrow> []);
            s2 = emit (AddRecipientsDialog items) s1
        in if dialog_accepted w
           then (let chosen = selected_recipients (dialog_selection w) items
                 in s2\<lparr>additionalRecipients := chosen,
                       recipientsLabel := ToContacts (currentContact s2) chosen,
                       statusLabel := RecipientsAdded (length chosen)\<rparr>)
           else s2)"

section \<open>The window after construction (lines 81-82, 88, 106, 128)\<close>

definition MainWindow ::
  "string \<Rightarrow> string \<Rightarrow> (string \<Rightarrow> contact_item option) \<Rightarrow> main_window" where
  "MainWindow identity theme items =
     \<lparr>ctx = True, currentIdentity = identity, currentContact = [], currentGroupId = -1,
      currentContactType = TYPE_CONTACT, contactItems = items, additionalRecipients = [],
      lastCheckedMessageId = 0, currentTheme = theme, messageInput = [],
      messageDisplay = [], statusLabel = StatusNone, recipientsLabel = ToNobody,
      trace = []\<rparr>"

section \<open>The handlers that do not poll for new messages\<close>

text \<open>onContactSelected (lines 652-690); a null item is \<open>None\<close>.\<close>

definition onContactSelected :: "world \<Rightarrow> string option \<Rightarrow> main_window \<Rightarrow> main_window" where
  "onContactSelected w item s =
     (case item of
        None \<Rightarrow> s
      | Some itemText \<Rightarrow>
          (case contactItems s itemText of
             None \<Rightarrow> s
           | Some contactItem \<Rightarrow>
               let s1 = s\<lparr>currentContactType := item_type contactItem,
                          additionalRecipients := []\<rparr>
               in case item_type contactItem of
                    TYPE_CONTACT \<Rightarrow>
                      (let s2 = s1\<lparr>currentContact := item_name contactItem,
                                   currentGroupId := -1\<rparr>;
                           s3 = s2\<lparr>recipientsLabel := ToContacts (currentContact s2) []\<rparr>;
                           s4 = emit (MarkConversationRead (currentContact s3)) s3
                       in loadConversation w (currentContact s4) s4)
                  | TYPE_GROUP \<Rightarrow>
                      (let s2 = s1\<lparr>currentContact := [],
                                   currentGroupId := item_groupId contactItem\<rparr>;
                           s3 = s2\<lparr>recipientsLabel := ToGroup (item_name contactItem)\<rparr>
                       in loadGroupConversation w (currentGroupId s3) s3)))"

text \<open>onRefreshMessages (lines 1068-1075).\<close>

definition onRefreshMessages :: "world \<Rightarrow> main_window \<Rightarrow> main_window" where
  "onRefreshMessages w s =
     (let s1 = (if currentContactType s = TYPE_CONTACT \<and> currentContact s \<noteq> []
                then loadConversation w (currentContact s) s
                else if currentContactType s = TYPE_GROUP \<and> currentGroupId s \<ge> 0
                then loadGroupConversation w (currentGroupId s) s
                else s)
      in s1\<lparr>statusLabel := MessagesRefreshed\<rparr>)"

text \<open>
  checkForStatusUpdates (lines 1139-1173): the query \<open>SELECT COUNT(*) FROM messages WHERE
  sender = $1 AND recipient = $2 AND status IN ('delivered', 'read')\<close>.
\<close>

definition status_count_query :: "message_info list \<Rightarrow> string \<Rightarrow> string \<Rightarrow> int" where
  "status_count_query table sender recipient =
     int (length (filter (\<lambda>m. msg_sender m = sender \<and> msg_recipient m = recipient
                              \<and> (msg_status m = Some ''delivered''
                                   \<or> msg_status m = Some ''read'')) table))"

definition checkForStatusUpdates :: "world \<Rightarrow> main_window \<Rightarrow> main_window" where
  "checkForStatusUpdates w s =
     (if \<not> ctx s \<or> currentContact s = [] then s
      else
        let sender = freed_text w (currentIdentity s);
            recipient = freed_text w (currentContact s);
            s1 = emit (QueryStatusCount sender recipient) s
        in case messages_table w of
             None \<Rightarrow> s1
           | Some table \<Rightarrow>
               if status_count_query table sender recipient > 0
               then loadConversation w (currentContact s1) s1
               else s1)"

text \<open>
  A session: the timers and the user fire handlers one after the other on the single GUI
  thread, each against the world of its moment.
\<close>

datatype action =
    PollTick
  | StatusTick
  | ContactSelected "string option"
  | RefreshMessages
  | SendClicked
  | AddRecipientsClicked

fun handle :: "action \<Rightarrow> world \<Rightarrow> main_window \<Rightarrow> main_window" where
  "handle PollTick w s = checkForNewMessages w s"
| "handle StatusTick w s = checkForStatusUpdates w s"
| "handle (ContactSelected item) w s = onContactSelected w item s"
| "handle RefreshMessages w s = onRefreshMessages w s"
| "handle SendClicked w s = onSendMessage w s"
| "handle AddRecipientsClicked w s = onAddRecipients w s"

fun session :: "(action \<times> world) list \<Rightarrow> main_window \<Rightarrow> main_window" where
  "session [] s = s"
| "session ((a, w) # rest) s = session rest (handle a w s)"

fun session_ids :: "(action \<times> world) list \<Rightarrow> main_window \<Rightarrow> int list" where
  "session_ids [] s = []"
| "session_ids ((a, w) # rest) s =
     (if a = PollTick then map fst (tick_rows w s) else []) @ session_ids rest (handle a w s)"

section \<open>Derived notions used to state the properties\<close>

text \<open>
  The entry one loop iteration appends for a message, as a function of the message, the
  decrypt answers and the window: it reads the window's identity and theme only.
\<close>

definition conversation_entry :: "world \<Rightarrow> main_window \<Rightarrow> message_info \<Rightarrow> html" where
  "conversation_entry w s m =
     conversation_bubble s m
       (if canAttemptDecrypt s m then decrypted_text w m else ''[encrypted]'')"

definition group_entry :: "world \<Rightarrow> main_window \<Rightarrow> message_info \<Rightarrow> html" where
  "group_entry w s m = group_bubble s m (decrypted_text w m)"

text \<open>The checkmark of a sent bubble; other entries have none.\<close>

definition bubble_badge :: "html \<Rightarrow> span option" where
  "bubble_badge h = (case h of SentBubble p t b txt \<Rightarrow> Some b | _ \<Rightarrow> None)"

text \<open>The notifications and the mark-delivered calls of a trace, in order.\<close>

definition notifications :: "event list \<Rightarrow> (string \<times> string) list" where
  "notifications es =
     concat (map (\<lambda>e. case e of ShowMessage sender timestamp \<Rightarrow> [(sender, timestamp)]
                         | _ \<Rightarrow> []) es)"

definition delivered_marks :: "event list \<Rightarrow> int list" where
  "delivered_marks es =
     concat (map (\<lambda>e. case e of MarkDelivered i \<Rightarrow> [i] | _ \<Rightarrow> []) es)"

text \<open>The additional recipients name neither the current contact nor the local identity.\<close>

definition recipients_ok :: "main_window \<Rightarrow> bool" where
  "recipients_ok s =
     (currentContact s \<notin> set (additionalRecipients s)
      \<and> currentIdentity s \<notin> set (additionalRecipients s))"

subsection \<open>Concrete inputs\<close>

definition quiet_world :: world where
  "quiet_world =
     \<lparr>get_conversation = (\<lambda>c. None), get_group_info = (\<lambda>g. None),
      get_group_conversation = (\<lambda>g. None), decrypt_message = (\<lambda>i. None),
      send_message = (\<lambda>rs msg. -1), send_group_message = (\<lambda>g msg. -1),
      messages_table = None, get_contact_list = None, dialog_accepted = False,
      dialog_selection = {}, current_time = ''12:00'', freed_text = (\<lambda>t. t)\<rparr>"

definition alice_window :: main_window where
  "alice_window = MainWindow ''alice'' ''io'' (\<lambda>itemText. None)"

definition msg_bob_to_carol :: message_info where
  "msg_bob_to_carol =
     \<lparr>msg_id = 5, msg_sender = ''bob'', msg_recipient = ''carol'',
      msg_timestamp = ''2025-01-02 10:30:00'', msg_status = None\<rparr>"

definition msg_alice_to_bob :: message_info where
  "msg_alice_to_bob =
     \<lparr>msg_id = 6, msg_sender = ''alice'', msg_recipient = ''bob'',
      msg_timestamp = ''2025-01-02 10:31:00'', msg_status = Some ''delivered''\<rparr>"

definition bob_world :: world where
  "bob_world = quiet_world
     \<lparr>get_conversation :=
        (\<lambda>c. if c = ''bob'' then Some [msg_bob_to_carol, msg_alice_to_bob] else None),
      decrypt_message := (\<lambda>i. if i = 5 then Some ''hello'' else None)\<rparr>"

definition group_world :: world where
  "group_world = quiet_world
     \<lparr>get_group_conversation := (\<lambda>g. if g = 7 then Some [msg_bob_to_carol] else None),
      decrypt_message := (\<lambda>i. if i = 5 then Some ''hello'' else None)\<rparr>"

definition empty_world :: world where
  "empty_world = quiet_world\<lparr>get_conversation := (\<lambda>c. Some [])\<rparr>"

definition bob_world_undecryptable :: world where
  "bob_world_undecryptable = bob_world\<lparr>decrypt_message := (\<lambda>i. None)\<rparr>"

definition bob_world_decryptable :: world where
  "bob_world_decryptable = bob_world\<lparr>decrypt_message := (\<lambda>i. Some ''see you'')\<rparr>"

text \<open>The message of scenario A, with its timestamp left open.\<close>

definition msg_bob_to_alice :: "string \<Rightarrow> message_info" where
  "msg_bob_to_alice ts =
     \<lparr>msg_id = 1, msg_sender = ''bob'', msg_recipient = ''alice'',
      msg_timestamp = ts, msg_status = Some ''read''\<rparr>"

definition msg_dave_to_alice :: message_info where
  "msg_dave_to_alice =
     \<lparr>msg_id = 4, msg_sender = ''dave'', msg_recipient = ''alice'',
      msg_timestamp = ''2025-01-02 09:20:00'', msg_status = None\<rparr>"

definition inbox_world :: world where
  "inbox_world =
     quiet_world\<lparr>messages_table := Some [msg_bob_to_alice ''2025-01-02 09:15:00'']\<rparr>"

definition later_world :: world where
  "later_world = quiet_world
     \<lparr>messages_table := Some [msg_dave_to_alice, msg_alice_to_bob,
                               msg_bob_to_alice ''2025-01-02 09:15:00'']\<rparr>"

text \<open>A message whose identifier is one above the largest C \<open>int\<close>.\<close>

definition msg_huge_to_alice :: message_info where
  "msg_huge_to_alice =
     \<lparr>msg_id = 2147483648, msg_sender = ''bob'', msg_recipient = ''alice'',
      msg_timestamp = ''2025-01-02 09:30:00'', msg_status = None\<rparr>"

definition huge_id_world :: world where
  "huge_id_world = quiet_world\<lparr>messages_table := Some [msg_huge_to_alice]\<rparr>"

text \<open>
  The store of scenario A in a world where the released buffer has been reused, so that
  the query reads an empty text where the identity was.
\<close>

definition reused_buffer_world :: world where
  "reused_buffer_world = inbox_world\<lparr>freed_text := (\<lambda>t. [])\<rparr>"

definition typing_window :: main_window where
  "typing_window = alice_window\<lparr>currentContact := ''bob'', messageInput := ''hi ''\<rparr>"

definition bob_window :: main_window where
  "bob_window = alice_window\<lparr>currentContact := ''bob''\<rparr>"

definition picking_world :: world where
  "picking_world = quiet_world
     \<lparr>get_contact_list := Some [''alice'', ''bob'', ''carol'', ''dave''],
      dialog_accepted := True, dialog_selection := {''carol'', ''alice''}\<rparr>"

section \<open>The message loops in closed form\<close>

lemma conversation_step_eq:
  "conversation_step w m s =
     s\<lparr>messageDisplay := messageDisplay s @ [conversation_entry w s m],
       trace := trace s @ (if canAttemptDecrypt s m then [DecryptMessage (msg_id m)] else [])\<rparr>"
  by (simp add: conversation_step_def conversation_text_def conversation_entry_def
      display_append_def emit_def conversation_bubble_def bubble_palette_def
      statusCheckmark_def canAttemptDecrypt_def Let_def)

lemma conversation_entry_cong:
  "currentIdentity s' = currentIdentity s \<Longrightarrow> currentTheme s' = currentTheme s \<Longrightarrow>
   conversation_entry w s' m = conversation_entry w s m"
  by (simp add: conversation_entry_def conversation_bubble_def bubble_palette_def
      statusCheckmark_def canAttemptDecrypt_def Let_def)

lemma canAttemptDecrypt_cong:
  "currentIdentity s' = currentIdentity s \<Longrightarrow> canAttemptDecrypt s' = canAttemptDecrypt s"
  by (simp add: canAttemptDecrypt_def fun_eq_iff)

lemma conversation_loop_eq:
  "conversation_loop w ms s =
     s\<lparr>messageDisplay := messageDisplay s @ map (conversation_entry w s) ms,
       trace := trace s @
         map (\<lambda>m. DecryptMessage (msg_id m)) (filter (canAttemptDecrypt s) ms)\<rparr>"
proof (induction ms arbitrary: s)
  case Nil
  show ?case by simp
next
  case (Cons m ms)
  let ?s1 = "conversation_step w m s"
  have id: "currentIdentity ?s1 = currentIdentity s"
    and th: "currentTheme ?s1 = currentTheme s"
    by (simp_all add: conversation_step_eq)
  have e: "conversation_entry w ?s1 = conversation_entry w s"
    using conversation_entry_cong [OF id th] by (simp add: fun_eq_iff)
  have c: "canAttemptDecrypt ?s1 = canAttemptDecrypt s"
    using canAttemptDecrypt_cong [OF id] .
  have "conversation_loop w (m # ms) s = conversation_loop w ms ?s1" by simp
  also have "\<dots> =
      ?s1\<lparr>messageDisplay := messageDisplay ?s1 @ map (conversation_entry w s) ms,
          trace := trace ?s1 @
            map (\<lambda>m. DecryptMessage (msg_id m)) (filter (canAttemptDecrypt s) ms)\<rparr>"
    using Cons.IH [of ?s1] by (simp only: e c)
  also have "\<dots> =
      s\<lparr>messageDisplay := messageDisplay s @ map (conversation_entry w s) (m # ms),
        trace := trace s @
          map (\<lambda>m. DecryptMessage (msg_id m)) (filter (canAttemptDecrypt s) (m # ms))\<rparr>"
    by (simp add: conversation_step_eq)
  finally show ?case .
qed

lemma group_step_eq:
  "group_step w m s =
     s\<lparr>messageDisplay := messageDisplay s @ [group_entry w s m],
       trace := trace s @ [DecryptMessage (msg_id m)]\<rparr>"
  by (simp add: group_step_def group_text_def group_entry_def
      display_append_def emit_def group_bubble_def bubble_palette_def Let_def)

lemma group_entry_cong:
  "currentIdentity s' = currentIdentity s \<Longrightarrow> currentTheme s' = currentTheme s \<Longrightarrow>
   group_entry w s' m = group_entry w s m"
  by (simp add: group_entry_def group_bubble_def bubble_palette_def Let_def)

lemma group_loop_eq:
  "group_loop w ms s =
     s\<lparr>messageDisplay := messageDisplay s @ map (group_entry w s) ms,
       trace := trace s @ map (\<lambda>m. DecryptMessage (msg_id m)) ms\<rparr>"
proof (induction ms arbitrary: s)
  case Nil
  show ?case by simp
next
  case (Cons m ms)
  let ?s1 = "group_step w m s"
  have id: "currentIdentity ?s1 = currentIdentity s"
    and th: "currentTheme ?s1 = currentTheme s"
    by (simp_all add: group_step_eq)
  have e: "group_entry w ?s1 = group_entry w s"
    using group_entry_cong [OF id th] by (simp add: fun_eq_iff)
  have "group_loop w (m # ms) s = group_loop w ms ?s1" by simp
  also have "\<dots> =
      ?s1\<lparr>messageDisplay := messageDisplay ?s1 @ map (group_entry w s) ms,
          trace := trace ?s1 @ map (\<lambda>m. DecryptMessage (msg_id m)) ms\<rparr>"
    using Cons.IH [of ?s1] by (simp only: e)
  also have "\<dots> =
      s\<lparr>messageDisplay := messageDisplay s @ map (group_entry w s) (m # ms),
        trace := trace s @ map (\<lambda>m. DecryptMessage (msg_id m)) (m # ms)\<rparr>"
    by (simp add: group_step_eq)
  finally show ?case .
qed

lemma loadConversation_eq:
  "loadConversation w contact s =
    (if contact = [] then s\<lparr>messageDisplay := []\<rparr>
     else case get_conversation w contact of
       Some messages \<Rightarrow>
         s\<lparr>messageDisplay := ConversationHeader contact #
              (if messages = [] then [NoMessagesYet]
               else map (conversation_entry w s) messages),
           statusLabel := LoadedMessagesWith (length messages) contact,
           trace := trace s @ GetConversation contact #
              map (\<lambda>m. DecryptMessage (msg_id m)) (filter (canAttemptDecrypt s) messages)\<rparr>
     | None \<Rightarrow>
         s\<lparr>messageDisplay := [ConversationHeader contact, FailedToLoadConversation],
           statusLabel := ErrorLoadingConversation,
           trace := trace s @ [GetConversation contact]\<rparr>)"
proof -
  let ?s3 = "emit (GetConversation contact)
               (display_setHtml (ConversationHeader contact) (display_clear s))"
  have e: "conversation_entry w ?s3 = conversation_entry w s"
    by (rule ext, rule conversation_entry_cong)
      (simp_all add: emit_def display_setHtml_def display_clear_def)
  have c: "canAttemptDecrypt ?s3 = canAttemptDecrypt s"
    by (rule canAttemptDecrypt_cong) (simp add: emit_def display_setHtml_def display_clear_def)
  show ?thesis
    unfolding loadConversation_def Let_def conversation_loop_eq e c
    by (simp add: emit_def display_setHtml_def display_clear_def display_append_def
        split: option.split)
qed

lemma conversation_entry_cases:
  "FailedToLoadConversation \<notin> set (map (conversation_entry w s) ms)
   \<and> NoMessagesYet \<notin> set (map (conversation_entry w s) ms)"
  by (auto simp: conversation_entry_def conversation_bubble_def Let_def)

lemma group_entry_cases:
  "FailedToLoadGroupConversation \<notin> set (map (group_entry w s) ms)
   \<and> NoMessagesYet \<notin> set (map (group_entry w s) ms)"
  by (auto simp: group_entry_def group_bubble_def Let_def)

lemma loadGroupConversation_eq:
  "loadGroupConversation w groupId s =
    (if groupId < 0 then s\<lparr>messageDisplay := []\<rparr>
     else case get_group_conversation w groupId of
       Some messages \<Rightarrow>
         s\<lparr>messageDisplay :=
              (case get_group_info w groupId of Some name \<Rightarrow> GroupHeader name
               | None \<Rightarrow> GroupHeaderGeneric) #
              (if messages = [] then [NoMessagesYet] else map (group_entry w s) messages),
           statusLabel := LoadedGroupMessages (length messages),
           trace := trace s @ GetGroupInfo groupId # GetGroupConversation groupId #
              map (\<lambda>m. DecryptMessage (msg_id m)) messages\<rparr>
     | None \<Rightarrow>
         s\<lparr>messageDisplay :=
              [case get_group_info w groupId of Some name \<Rightarrow> GroupHeader name
               | None \<Rightarrow> GroupHeaderGeneric, FailedToLoadGroupConversation],
           statusLabel := ErrorLoadingGroupConversation,
           trace := trace s @ [GetGroupInfo groupId, GetGroupConversation groupId]\<rparr>)"
proof (cases "get_group_info w groupId")
  case None
  let ?s4 = "emit (GetGroupConversation groupId)
               (display_setHtml GroupHeaderGeneric
                  (emit (GetGroupInfo groupId) (display_clear s)))"
  have e: "group_entry w ?s4 = group_entry w s"
    by (rule ext, rule group_entry_cong)
      (simp_all add: emit_def display_setHtml_def display_clear_def)
  show ?thesis
    unfolding loadGroupConversation_def Let_def None option.case group_loop_eq e
    by (simp add: emit_def display_setHtml_def display_clear_def display_append_def
        split: option.split)
next
  case (Some name)
  let ?s4 = "emit (GetGroupConversation groupId)
               (display_setHtml (GroupHeader name)
                  (emit (GetGroupInfo groupId) (display_clear s)))"
  have e: "group_entry w ?s4 = group_entry w s"
    by (rule ext, rule group_entry_cong)
      (simp_all add: emit_def display_setHtml_def display_clear_def)
  show ?thesis
    unfolding loadGroupConversation_def Let_def Some option.case group_loop_eq e
    by (simp add: emit_def display_setHtml_def display_clear_def display_append_def
        split: option.split)
qed

lemma toHtmlEscaped_encrypted: "toHtmlEscaped ''[encrypted]'' = ''[encrypted]''"
  by simp

section \<open>Decrypt authorization in conversation assembly\<close>

text \<open>
  C1, as amended.  In a direct conversation, a message whose recipient and sender both
  differ from the local identity is shown as a received bubble with the text
  \<open>[encrypted]\<close>, and its iteration makes no decrypt call, in whatever state \<open>s'\<close> of
  the same identity the loop reaches it: the decrypt calls of the whole load are those of
  the messages that pass the gate, in order.  A group conversation has no gate: the
  iteration of every message calls decrypt and shows what the call gives.
\<close>

theorem direct_gate_placeholder:
  assumes "contact \<noteq> []" and "get_conversation w contact = Some ms" and "i < length ms"
    and "msg_recipient (ms ! i) \<noteq> currentIdentity s"
    and "msg_sender (ms ! i) \<noteq> currentIdentity s"
    and "currentIdentity s' = currentIdentity s"
  shows "messageDisplay (loadConversation w contact s) ! Suc i =
           ReceivedBubble (bubble_palette s) (msg_sender (ms ! i))
             (mid 11 5 (msg_timestamp (ms ! i))) ''[encrypted]''
         \<and> conversation_text w (ms ! i) s' = (''[encrypted]'', s')
         \<and> trace (loadConversation w contact s) =
             trace s @ GetConversation contact #
               map (\<lambda>m. DecryptMessage (msg_id m)) (filter (canAttemptDecrypt s) ms)
         \<and> ms ! i \<notin> set (filter (canAttemptDecrypt s) ms)
         \<and> group_text w (ms ! i) s' =
             (decrypted_text w (ms ! i), emit (DecryptMessage (msg_id (ms ! i))) s')"
proof -
  have gate: "\<not> canAttemptDecrypt s (ms ! i)"
    using assms(4,5) by (simp add: canAttemptDecrypt_def)
  have gate': "\<not> canAttemptDecrypt s' (ms ! i)"
    using gate canAttemptDecrypt_cong [OF assms(6)] by simp
  have ne: "ms \<noteq> []" using assms(3) by auto
  have "messageDisplay (loadConversation w contact s) =
          ConversationHeader contact # map (conversation_entry w s) ms"
    using assms(1,2) ne by (simp add: loadConversation_eq)
  then have "messageDisplay (loadConversation w contact s) ! Suc i =
               conversation_entry w s (ms ! i)"
    using assms(3) by simp
  also have "\<dots> = ReceivedBubble (bubble_palette s) (msg_sender (ms ! i))
             (mid 11 5 (msg_timestamp (ms ! i))) ''[encrypted]''"
    using gate assms(5)
    by (simp only: conversation_entry_def conversation_bubble_def Let_def if_False
        toHtmlEscaped_encrypted)
  finally have a: "messageDisplay (loadConversation w contact s) ! Suc i =
           ReceivedBubble (bubble_palette s) (msg_sender (ms ! i))
             (mid 11 5 (msg_timestamp (ms ! i))) ''[encrypted]''" .
  have b: "conversation_text w (ms ! i) s' = (''[encrypted]'', s')"
    using gate' by (simp add: conversation_text_def)
  have c: "trace (loadConversation w contact s) =
             trace s @ GetConversation contact #
               map (\<lambda>m. DecryptMessage (msg_id m)) (filter (canAttemptDecrypt s) ms)"
    using assms(1,2) by (simp add: loadConversation_eq)
  have d: "ms ! i \<notin> set (filter (canAttemptDecrypt s) ms)"
    using gate by simp
  have e: "group_text w (ms ! i) s' =
             (decrypted_text w (ms ! i), emit (DecryptMessage (msg_id (ms ! i))) s')"
    by (simp add: group_text_def)
  from a b c d e show ?thesis by blast
qed

text \<open>
  Witness for C1: alice opens the conversation with bob, whose first stored message goes
  from bob to carol and whose second is her own.  The first entry is the placeholder and the
  only decrypt call is the one for her own message.
\<close>

theorem direct_gate_placeholder_witness:
  "messageDisplay (loadConversation bob_world ''bob'' alice_window) ! Suc 0 =
     ReceivedBubble Io ''bob'' ''10:30'' ''[encrypted]''
   \<and> trace (loadConversation bob_world ''bob'' alice_window) =
       [GetConversation ''bob'', DecryptMessage 6]"
proof -
  have h1: "''bob'' \<noteq> []" by simp
  have h2: "get_conversation bob_world ''bob'' = Some [msg_bob_to_carol, msg_alice_to_bob]"
    by (simp add: bob_world_def quiet_world_def)
  have h3: "0 < length [msg_bob_to_carol, msg_alice_to_bob]" by simp
  have h4: "msg_recipient ([msg_bob_to_carol, msg_alice_to_bob] ! 0)
              \<noteq> currentIdentity alice_window"
    by (simp add: msg_bob_to_carol_def alice_window_def MainWindow_def)
  have h5: "msg_sender ([msg_bob_to_carol, msg_alice_to_bob] ! 0)
              \<noteq> currentIdentity alice_window"
    by (simp add: msg_bob_to_carol_def alice_window_def MainWindow_def)
  have h6: "currentIdentity alice_window = currentIdentity alice_window" by simp
  show ?thesis
    using direct_gate_placeholder [OF h1 h2 h3 h4 h5 h6]
    by (simp add: msg_bob_to_carol_def msg_alice_to_bob_def alice_window_def MainWindow_def
        bubble_palette_def mid_def canAttemptDecrypt_def)
qed

text \<open>
  Counterexample to C1 as stated: alice opens group 7, which holds the message from bob to
  carol.  Neither its recipient nor its sender is alice, yet the decrypt call for message 5
  is made and the entry shows the plaintext it returned.
\<close>

theorem group_gate_counterexample:
  "msg_recipient msg_bob_to_carol \<noteq> currentIdentity alice_window
   \<and> msg_sender msg_bob_to_carol \<noteq> currentIdentity alice_window
   \<and> messageDisplay (loadGroupConversation group_world 7 alice_window) =
       [GroupHeaderGeneric, ReceivedBubble Io ''bob'' ''10:30'' ''hello'']
   \<and> trace (loadGroupConversation group_world 7 alice_window) =
       [GetGroupInfo 7, GetGroupConversation 7, DecryptMessage 5]"
  by (simp add: loadGroupConversation_def group_world_def quiet_world_def alice_window_def
      MainWindow_def msg_bob_to_carol_def display_clear_def display_setHtml_def emit_def
      group_step_def group_text_def group_bubble_def decrypted_text_def display_append_def
      bubble_palette_def mid_def Let_def)

section \<open>Empty conversation and failed read\<close>

text \<open>
  C5.  For a contact that is named, a read that succeeds with no message shows the header
  and the empty-state placeholder and reports zero loaded messages; a read that fails shows
  the header and the failure placeholder and reports an error.  The failure placeholder is
  on display exactly when the read failed, the empty-state placeholder exactly when the
  read succeeded with no message.
\<close>

theorem empty_and_failure_distinct:
  assumes "contact \<noteq> []"
  shows "(get_conversation w contact = Some [] \<longrightarrow>
            messageDisplay (loadConversation w contact s) =
              [ConversationHeader contact, NoMessagesYet]
            \<and> statusLabel (loadConversation w contact s) = LoadedMessagesWith 0 contact)
       \<and> (get_conversation w contact = None \<longrightarrow>
            messageDisplay (loadConversation w contact s) =
              [ConversationHeader contact, FailedToLoadConversation]
            \<and> statusLabel (loadConversation w contact s) = ErrorLoadingConversation)
       \<and> (FailedToLoadConversation \<in> set (messageDisplay (loadConversation w contact s))
            \<longleftrightarrow> get_conversation w contact = None)
       \<and> (NoMessagesYet \<in> set (messageDisplay (loadConversation w contact s))
            \<longleftrightarrow> get_conversation w contact = Some [])"
proof (cases "get_conversation w contact")
  case None
  then show ?thesis using assms by (simp add: loadConversation_eq)
next
  case (Some ms)
  show ?thesis
  proof (cases "ms = []")
    case True
    then show ?thesis using assms Some by (simp add: loadConversation_eq)
  next
    case False
    have "FailedToLoadConversation \<notin> set (map (conversation_entry w s) ms)"
      and "NoMessagesYet \<notin> set (map (conversation_entry w s) ms)"
      using conversation_entry_cases [of w s ms] by simp_all
    then show ?thesis using assms Some False by (simp add: loadConversation_eq)
  qed
qed

text \<open>
  Witness for C5: alice opens the conversation with bob, once in a world whose store
  answers with no message and once in a world whose store read fails.
\<close>

theorem empty_and_failure_distinct_witness:
  "messageDisplay (loadConversation empty_world ''bob'' alice_window) =
     [ConversationHeader ''bob'', NoMessagesYet]
   \<and> statusLabel (loadConversation empty_world ''bob'' alice_window) =
       LoadedMessagesWith 0 ''bob''
   \<and> messageDisplay (loadConversation quiet_world ''bob'' alice_window) =
     [ConversationHeader ''bob'', FailedToLoadConversation]
   \<and> statusLabel (loadConversation quiet_world ''bob'' alice_window) =
       ErrorLoadingConversation"
proof -
  have h: "''bob'' \<noteq> []" by simp
  have e: "get_conversation empty_world ''bob'' = Some []"
    by (simp add: empty_world_def quiet_world_def)
  have f: "get_conversation quiet_world ''bob'' = None"
    by (simp add: quiet_world_def)
  show ?thesis
    using empty_and_failure_distinct [OF h, of empty_world alice_window]
      empty_and_failure_distinct [OF h, of quiet_world alice_window] e f
    by simp
qed

text \<open>The group load separates the two outcomes in the same way.\<close>

lemma group_empty_and_failure_distinct:
  assumes "0 \<le> groupId"
  shows "(FailedToLoadGroupConversation \<in> set (messageDisplay (loadGroupConversation w groupId s))
            \<longleftrightarrow> get_group_conversation w groupId = None)
       \<and> (NoMessagesYet \<in> set (messageDisplay (loadGroupConversation w groupId s))
            \<longleftrightarrow> get_group_conversation w groupId = Some [])"
proof (cases "get_group_conversation w groupId")
  case None
  then show ?thesis using assms by (simp add: loadGroupConversation_eq split: option.split)
next
  case (Some ms)
  show ?thesis
  proof (cases "ms = []")
    case True
    then show ?thesis using assms Some
      by (simp add: loadGroupConversation_eq split: option.split)
  next
    case False
    have "FailedToLoadGroupConversation \<notin> set (map (group_entry w s) ms)"
      and "NoMessagesYet \<notin> set (map (group_entry w s) ms)"
      using group_entry_cases [of w s ms] by simp_all
    then show ?thesis using assms Some False
      by (simp add: loadGroupConversation_eq split: option.split)
  qed
qed

section \<open>Entries of the local identity's own messages\<close>

text \<open>
  C6.  In a direct conversation, the entry of a message whose sender is the local identity
  is a sent bubble (attribution self) whose checkmark is the one of the badge that
  \<open>classify\<close> gives for the message's status field.  The decrypt answer appears in the
  text of the bubble only: the checkmark is the same whatever decryption returns.
\<close>

theorem self_entry_badge:
  assumes "contact \<noteq> []" and "get_conversation w contact = Some ms" and "i < length ms"
    and "msg_sender (ms ! i) = currentIdentity s"
  shows "messageDisplay (loadConversation w contact s) ! Suc i =
           SentBubble (bubble_palette s) (mid 11 5 (msg_timestamp (ms ! i)))
             (statusCheckmark s (classify (msg_status (ms ! i))))
             (toHtmlEscaped (decrypted_text w (ms ! i)))
         \<and> bubble_badge (messageDisplay (loadConversation w contact s) ! Suc i) =
             Some (statusCheckmark s (classify (msg_status (ms ! i))))"
proof -
  have ne: "ms \<noteq> []" using assms(3) by auto
  have "messageDisplay (loadConversation w contact s) =
          ConversationHeader contact # map (conversation_entry w s) ms"
    using assms(1,2) ne by (simp add: loadConversation_eq)
  then have "messageDisplay (loadConversation w contact s) ! Suc i =
               conversation_entry w s (ms ! i)"
    using assms(3) by simp
  also have "\<dots> = SentBubble (bubble_palette s) (mid 11 5 (msg_timestamp (ms ! i)))
             (statusCheckmark s (classify (msg_status (ms ! i))))
             (toHtmlEscaped (decrypted_text w (ms ! i)))"
    using assms(4)
    by (simp add: conversation_entry_def conversation_bubble_def canAttemptDecrypt_def Let_def)
  finally show ?thesis by (simp add: bubble_badge_def)
qed

text \<open>
  Witness for C6: alice's delivered message to bob carries the double gray checkmark, in a
  world where its decryption succeeds and in one where it fails.
\<close>

theorem self_entry_badge_witness:
  "bubble_badge (messageDisplay (loadConversation bob_world_decryptable ''bob'' alice_window) ! Suc 1)
     = Some (Span ''#888888'' 2)
   \<and> bubble_badge (messageDisplay (loadConversation bob_world_undecryptable ''bob'' alice_window) ! Suc 1)
     = Some (Span ''#888888'' 2)"
proof -
  have h1: "''bob'' \<noteq> []" by simp
  have h2: "get_conversation bob_world_decryptable ''bob'' =
              Some [msg_bob_to_carol, msg_alice_to_bob]"
    by (simp add: bob_world_decryptable_def bob_world_def quiet_world_def)
  have h2': "get_conversation bob_world_undecryptable ''bob'' =
              Some [msg_bob_to_carol, msg_alice_to_bob]"
    by (simp add: bob_world_undecryptable_def bob_world_def quiet_world_def)
  have h3: "1 < length [msg_bob_to_carol, msg_alice_to_bob]" by simp
  have h4: "msg_sender ([msg_bob_to_carol, msg_alice_to_bob] ! 1) = currentIdentity alice_window"
    by (simp add: msg_alice_to_bob_def alice_window_def MainWindow_def)
  show ?thesis
    using self_entry_badge [OF h1 h2 h3 h4] self_entry_badge [OF h1 h2' h3 h4]
    by (simp add: msg_alice_to_bob_def classify_def statusCheckmark_def bubble_badge_def)
qed

section \<open>Status classification\<close>

text \<open>
  C4.  The status chain of a sent message in a direct conversation takes an absent status
  and the word \<open>sent\<close> to pending, \<open>delivered\<close> to delivered, \<open>read\<close> to read, and
  every other word to pending.
\<close>

theorem classify_mapping:
  "classify None = Pending \<and> classify (Some ''sent'') = Pending
   \<and> classify (Some ''delivered'') = Delivered \<and> classify (Some ''read'') = Read
   \<and> (\<forall>st. st \<noteq> ''read'' \<and> st \<noteq> ''delivered'' \<longrightarrow> classify (Some st) = Pending)"
  by (simp add: classify_def)

text \<open>Witness for C4: the unknown status word \<open>archived\<close> is pending.\<close>

theorem classify_mapping_witness:
  "''archived'' \<noteq> ''read'' \<and> ''archived'' \<noteq> ''delivered''
   \<and> classify (Some ''archived'') = Pending"
  using classify_mapping by simp

text \<open>
  The two steps of the status chain, put together, are the chain of lines 751-766 as it is
  written.
\<close>

lemma status_chain:
  "statusCheckmark s (classify raw) =
     (let status = (case raw of Some st \<Rightarrow> st | None \<Rightarrow> ''sent'')
      in if status = ''read''
         then (if currentTheme s = ''club'' then Span ''#FF8C42'' 2 else Span ''#00D9FF'' 2)
         else if status = ''delivered'' then Span ''#888888'' 2
         else Span ''#888888'' 1)"
  by (simp add: statusCheckmark_def classify_def Let_def)

text \<open>The three badges give three different checkmarks, in every theme.\<close>

lemma statusCheckmark_inject: "statusCheckmark s b = statusCheckmark s b' \<longleftrightarrow> b = b'"
  by (cases b; cases b') (simp_all add: statusCheckmark_def)

section \<open>The poll tick when the query fails\<close>

text \<open>
  C8.  When the new-message query does not complete, the tick leaves the window as it was:
  the cursor, the display and the status label keep their values, and the trace gains the
  query itself and nothing else (no mark-delivered call, no notification, no conversation
  load).
\<close>

theorem poll_query_failure:
  assumes "messages_table w = None"
  shows "checkForNewMessages w s =
           s\<lparr>trace := trace s @
               (if \<not> ctx s \<or> currentIdentity s = [] then []
                else [QueryNewMessages (freed_text w (currentIdentity s))
                        (lastCheckedMessageId s)])\<rparr>"
  using assms by (simp add: checkForNewMessages_def emit_def Let_def)

text \<open>Witness for C8: a failing query in alice's fresh window.\<close>

theorem poll_query_failure_witness:
  "messages_table quiet_world = None
   \<and> checkForNewMessages quiet_world alice_window =
       alice_window\<lparr>trace := [QueryNewMessages ''alice'' 0]\<rparr>"
proof -
  have h: "messages_table quiet_world = None" by (simp add: quiet_world_def)
  show ?thesis
    using h poll_query_failure [OF h, of alice_window]
    by (simp add: alice_window_def MainWindow_def quiet_world_def)
qed

section \<open>The poll tick and its cursor\<close>

lemma atoi_in_range: "INT_MIN \<le> v \<Longrightarrow> v \<le> INT_MAX \<Longrightarrow> atoi v = v"
  by (simp add: atoi_def strtol_def int_of_long_def INT_MIN_def INT_MAX_def LONG_MIN_def
      LONG_MAX_def)

lemma notifications_append: "notifications (xs @ ys) = notifications xs @ notifications ys"
  by (simp add: notifications_def)

lemma delivered_marks_append:
  "delivered_marks (xs @ ys) = delivered_marks xs @ delivered_marks ys"
  by (simp add: delivered_marks_def)

lemma notifications_decrypts: "notifications (map (\<lambda>m. DecryptMessage (f m)) ms) = []"
  by (induction ms) (simp_all add: notifications_def)

lemma delivered_marks_decrypts: "delivered_marks (map (\<lambda>m. DecryptMessage (f m)) ms) = []"
  by (induction ms) (simp_all add: delivered_marks_def)

lemma loadConversation_quiet:
  "lastCheckedMessageId (loadConversation w c s) = lastCheckedMessageId s
   \<and> notifications (trace (loadConversation w c s)) = notifications (trace s)
   \<and> delivered_marks (trace (loadConversation w c s)) = delivered_marks (trace s)"
  by (simp add: loadConversation_eq notifications_append delivered_marks_append
      notifications_decrypts delivered_marks_decrypts split: option.split)
    (simp add: notifications_def delivered_marks_def)

lemma poll_step_effect:
  "lastCheckedMessageId (poll_step w (i, sender, ts) s) = max (lastCheckedMessageId s) (atoi i)
   \<and> notifications (trace (poll_step w (i, sender, ts) s)) =
       notifications (trace s) @ [(sender, ts)]
   \<and> delivered_marks (trace (poll_step w (i, sender, ts) s)) =
       delivered_marks (trace s) @ [atoi i]"
  by (simp add: poll_step_def Let_def loadConversation_quiet emit_def notifications_append
      delivered_marks_append)
    (simp add: notifications_def delivered_marks_def)

text \<open>
  Scenario A runs as told when the query still reads the identity through its released
  buffer.
\<close>

lemma scenario_A_intact_buffer:
  assumes "ctx s" and "currentIdentity s = ''alice''" and "lastCheckedMessageId s = 0"
    and "messages_table w = Some [msg_bob_to_alice ts]"
    and "freed_text w ''alice'' = ''alice''"
  shows "lastCheckedMessageId (checkForNewMessages w s) = 1
       \<and> notifications (trace (checkForNewMessages w s)) =
           notifications (trace s) @ [(''bob'', ts)]
       \<and> delivered_marks (trace (checkForNewMessages w s)) = delivered_marks (trace s) @ [1]"
proof -
  let ?s1 = "emit (QueryNewMessages ''alice'' 0) s"
  have q: "new_messages_query [msg_bob_to_alice ts] ''alice'' 0 = [(1, ''bob'', ts)]"
    by (simp add: new_messages_query_def msg_bob_to_alice_def)
  have t: "checkForNewMessages w s = poll_step w (1, ''bob'', ts) ?s1"
    using assms by (simp add: checkForNewMessages_def Let_def q)
  have s1: "lastCheckedMessageId ?s1 = 0" "notifications (trace ?s1) = notifications (trace s)"
    "delivered_marks (trace ?s1) = delivered_marks (trace s)"
    using assms(3) by (simp_all add: emit_def notifications_def delivered_marks_def)
  have one: "atoi 1 = 1" by (rule atoi_in_range) (simp_all add: INT_MIN_def INT_MAX_def)
  show ?thesis
    unfolding t using poll_step_effect [of w 1 "''bob''" ts ?s1] by (simp add: s1 one)
qed

text \<open>
  C3 (scenario A), where the code fails it.  The store holds the single message 1 from
  bob to alice with status \<open>read\<close>, the window is alice's with the cursor at 0, and the
  buffer that held the query's copy of the identity no longer reads \<open>alice\<close> when the
  query runs.  The store is then asked for somebody else's messages: the tick gets no
  row and does nothing but the query, so the cursor stays at 0 and there is neither a
  notification nor a mark-delivered call.
\<close>

theorem scenario_A_released_buffer:
  assumes "ctx s" and "currentIdentity s = ''alice''" and "lastCheckedMessageId s = 0"
    and "messages_table w = Some [msg_bob_to_alice ts]"
    and "freed_text w ''alice'' \<noteq> ''alice''"
  shows "checkForNewMessages w s = emit (QueryNewMessages (freed_text w ''alice'') 0) s
       \<and> lastCheckedMessageId (checkForNewMessages w s) = 0
       \<and> notifications (trace (checkForNewMessages w s)) = notifications (trace s)
       \<and> delivered_marks (trace (checkForNewMessages w s)) = delivered_marks (trace s)"
proof -
  have q: "new_messages_query [msg_bob_to_alice ts] (freed_text w ''alice'') 0 = []"
    using assms(5) by (auto simp: new_messages_query_def msg_bob_to_alice_def)
  have t: "checkForNewMessages w s = emit (QueryNewMessages (freed_text w ''alice'') 0) s"
    using assms(1-4) by (simp add: checkForNewMessages_def Let_def q)
  show ?thesis
    unfolding t using assms(3)
    by (simp add: emit_def notifications_def delivered_marks_def)
qed

text \<open>
  The failing run for C3: in alice's fresh window, with the released buffer reused so
  that the query reads an empty text, the tick of scenario A leaves the cursor at 0 and
  has the query as its only effect.
\<close>

theorem scenario_A_released_buffer_witness:
  "messages_table reused_buffer_world = Some [msg_bob_to_alice ''2025-01-02 09:15:00'']
   \<and> checkForNewMessages reused_buffer_world alice_window =
       alice_window\<lparr>trace := [QueryNewMessages [] 0]\<rparr>
   \<and> lastCheckedMessageId (checkForNewMessages reused_buffer_world alice_window) = 0
   \<and> notifications (trace (checkForNewMessages reused_buffer_world alice_window)) = []
   \<and> delivered_marks (trace (checkForNewMessages reused_buffer_world alice_window)) = []"
proof -
  have h1: "ctx alice_window" and h2: "currentIdentity alice_window = ''alice''"
    and h3: "lastCheckedMessageId alice_window = 0"
    by (simp_all add: alice_window_def MainWindow_def)
  have h4: "messages_table reused_buffer_world =
              Some [msg_bob_to_alice ''2025-01-02 09:15:00'']"
    by (simp add: reused_buffer_world_def inbox_world_def quiet_world_def)
  have h5: "freed_text reused_buffer_world ''alice'' \<noteq> ''alice''"
    by (simp add: reused_buffer_world_def)
  have f: "freed_text reused_buffer_world ''alice'' = []"
    by (simp add: reused_buffer_world_def)
  have t: "trace alice_window = []" by (simp add: alice_window_def MainWindow_def)
  have r: "checkForNewMessages reused_buffer_world alice_window =
             alice_window\<lparr>trace := [QueryNewMessages [] 0]\<rparr>"
    using scenario_A_released_buffer [OF h1 h2 h3 h4 h5, THEN conjunct1]
    by (simp add: f t emit_def)
  show ?thesis
    unfolding r using h3 h4 by (simp add: notifications_def delivered_marks_def)
qed

lemma poll_loop_cursor:
  "lastCheckedMessageId (poll_loop w rows s) =
     fold max (map (\<lambda>row. atoi (fst row)) rows) (lastCheckedMessageId s)"
proof (induction rows arbitrary: s)
  case Nil
  show ?case by simp
next
  case (Cons row rows)
  obtain i sender ts where row: "row = (i, sender, ts)" by (cases row) auto
  show ?case
    using Cons.IH [of "poll_step w row s"] poll_step_effect [of w i sender ts s]
    by (simp add: row max.commute)
qed

text \<open>The rows a tick is said to receive are the rows its loop runs over.\<close>

lemma checkForNewMessages_rows:
  "checkForNewMessages w s =
     (if \<not> ctx s \<or> currentIdentity s = [] then s
      else poll_loop w (tick_rows w s)
             (emit (QueryNewMessages (freed_text w (currentIdentity s))
                      (lastCheckedMessageId s)) s))"
  by (simp add: checkForNewMessages_def tick_rows_def Let_def split: option.split)

lemma tick_cursor:
  "lastCheckedMessageId (checkForNewMessages w s) =
     fold max (map (\<lambda>row. atoi (fst row)) (tick_rows w s)) (lastCheckedMessageId s)"
  by (simp add: checkForNewMessages_rows poll_loop_cursor emit_def tick_rows_def)

lemma fold_max_ge: "(c::int) \<le> fold max xs c"
proof (induction xs arbitrary: c)
  case Nil
  show ?case by simp
next
  case (Cons x xs)
  have "c \<le> max x c" by simp
  also have "\<dots> \<le> fold max xs (max x c)" by (rule Cons.IH)
  finally show ?case by simp
qed

lemma fold_max_Max: "fold max xs (c::int) = Max (insert c (set xs))"
  using Max.set_eq_fold [of c xs] by simp

lemma tick_monotone:
  "lastCheckedMessageId s \<le> lastCheckedMessageId (checkForNewMessages w s)"
  by (simp add: tick_cursor fold_max_ge)

lemma tick_rows_above: "i \<in> set (map fst (tick_rows w s)) \<Longrightarrow> lastCheckedMessageId s < i"
  by (auto simp: tick_rows_def new_messages_query_def split: if_splits option.splits)

lemma poll_ticks_append: "poll_ticks (ws @ ws') s = poll_ticks ws' (poll_ticks ws s)"
  by (induction ws arbitrary: s) simp_all

lemma observed_ids_above:
  "i \<in> set (observed_ids ws s) \<Longrightarrow> lastCheckedMessageId s < i"
proof (induction ws arbitrary: s)
  case Nil
  then show ?case by simp
next
  case (Cons w ws)
  from Cons.prems consider "i \<in> set (map fst (tick_rows w s))"
    | "i \<in> set (observed_ids ws (checkForNewMessages w s))"
    by auto
  then show ?case
  proof cases
    case 1
    then show ?thesis by (rule tick_rows_above)
  next
    case 2
    then have "lastCheckedMessageId (checkForNewMessages w s) < i" by (rule Cons.IH)
    then show ?thesis using tick_monotone [of s w] by simp
  qed
qed

text \<open>
  While the identifiers a tick receives fit a C \<open>int\<close>, \<open>atoi\<close> reads them as they are.
\<close>

lemma tick_rows_read_exactly:
  assumes "0 \<le> lastCheckedMessageId s"
    and "\<forall>i \<in> set (map fst (tick_rows w s)). i \<le> INT_MAX"
  shows "map (\<lambda>row. atoi (fst row)) (tick_rows w s) = map fst (tick_rows w s)"
proof (rule map_cong [OF refl])
  fix row assume r: "row \<in> set (tick_rows w s)"
  then have "lastCheckedMessageId s < fst row"
    using tick_rows_above [of "fst row" w s] by simp
  then have "INT_MIN \<le> fst row" using assms(1) by (simp add: INT_MIN_def)
  moreover have "fst row \<le> INT_MAX" using assms(2) r by simp
  ultimately show "atoi (fst row) = fst row" by (rule atoi_in_range)
qed

lemma poll_ticks_cursor:
  assumes "0 \<le> lastCheckedMessageId s"
    and "\<forall>i \<in> set (observed_ids ws s). i \<le> INT_MAX"
  shows "lastCheckedMessageId (poll_ticks ws s) =
           fold max (observed_ids ws s) (lastCheckedMessageId s)"
  using assms
proof (induction ws arbitrary: s)
  case Nil
  show ?case by simp
next
  case (Cons w ws)
  let ?s1 = "checkForNewMessages w s"
  have r: "\<forall>i \<in> set (map fst (tick_rows w s)). i \<le> INT_MAX"
    and o: "\<forall>i \<in> set (observed_ids ws ?s1). i \<le> INT_MAX"
    using Cons.prems(2) by simp_all
  have c: "lastCheckedMessageId ?s1 =
             fold max (map fst (tick_rows w s)) (lastCheckedMessageId s)"
    using tick_cursor [of w s] tick_rows_read_exactly [OF Cons.prems(1) r] by simp
  have p: "0 \<le> lastCheckedMessageId ?s1"
    using Cons.prems(1) tick_monotone [of s w] by simp
  show ?case using Cons.IH [OF p o] by (simp add: c)
qed

text \<open>
  C2, as amended.  Start with the cursor at 0 and run any sequence of poll ticks, each
  against its own world.  One more tick never lowers the cursor.  If every identifier the
  polls returned fits a C \<open>int\<close>, the cursor after the run is the largest of 0 and those
  identifiers, which is the largest identifier returned as soon as any row was returned.
  Every prefix of a run is a run, so this holds after each tick.
\<close>

theorem poll_cursor_invariant:
  assumes "lastCheckedMessageId s = 0"
  shows "lastCheckedMessageId (poll_ticks ws s)
           \<le> lastCheckedMessageId (poll_ticks (ws @ [w]) s)
       \<and> ((\<forall>i \<in> set (observed_ids ws s). i \<le> INT_MAX) \<longrightarrow>
            lastCheckedMessageId (poll_ticks ws s) = Max (insert 0 (set (observed_ids ws s)))
            \<and> (observed_ids ws s \<noteq> [] \<longrightarrow>
                 lastCheckedMessageId (poll_ticks ws s) = Max (set (observed_ids ws s))))"
proof -
  have c: "lastCheckedMessageId (poll_ticks ws s)
             \<le> lastCheckedMessageId (poll_ticks (ws @ [w]) s)"
    by (simp add: poll_ticks_append tick_monotone)
  have ab: "lastCheckedMessageId (poll_ticks ws s) = Max (insert 0 (set (observed_ids ws s)))
            \<and> (observed_ids ws s \<noteq> [] \<longrightarrow>
                 lastCheckedMessageId (poll_ticks ws s) = Max (set (observed_ids ws s)))"
    if range: "\<forall>i \<in> set (observed_ids ws s). i \<le> INT_MAX"
  proof -
    have z: "0 \<le> lastCheckedMessageId s" using assms by simp
    have a: "lastCheckedMessageId (poll_ticks ws s) =
               Max (insert 0 (set (observed_ids ws s)))"
      using poll_ticks_cursor [OF z range] assms by (simp add: fold_max_Max)
    have b: "lastCheckedMessageId (poll_ticks ws s) = Max (set (observed_ids ws s))"
      if ne: "observed_ids ws s \<noteq> []"
    proof -
      have pos: "\<forall>i \<in> set (observed_ids ws s). 0 < i"
        using observed_ids_above [of _ ws s] assms by auto
      have fin: "finite (set (observed_ids ws s))" and ne': "set (observed_ids ws s) \<noteq> {}"
        using ne by simp_all
      have "0 \<le> Max (set (observed_ids ws s))"
        using pos fin ne' by (meson Max_ge_iff less_imp_le ex_in_conv)
      then have "Max (insert 0 (set (observed_ids ws s))) = Max (set (observed_ids ws s))"
        using fin ne' by (simp add: max_def)
      then show ?thesis using a by simp
    qed
    from a b show ?thesis by blast
  qed
  from c ab show ?thesis by blast
qed

text \<open>
  Witness for C2: four ticks for alice (failing query, message 1 in the store, messages
  1 and 4 in the store, message 1 only); the polls return 1, then 4, then nothing.
\<close>

theorem poll_cursor_invariant_witness:
  "observed_ids [quiet_world, inbox_world, later_world, inbox_world] alice_window = [1, 4]
   \<and> lastCheckedMessageId
        (poll_ticks [quiet_world, inbox_world, later_world, inbox_world] alice_window) = 4"
proof -
  have h: "lastCheckedMessageId alice_window = 0"
    by (simp add: alice_window_def MainWindow_def)
  have obs: "observed_ids [quiet_world, inbox_world, later_world, inbox_world] alice_window
               = [1, 4]"
    by code_simp
  have range: "\<forall>i \<in> set [1, 4 :: int]. i \<le> INT_MAX" by (simp add: INT_MAX_def)
  have "lastCheckedMessageId
          (poll_ticks [quiet_world, inbox_world, later_world, inbox_world] alice_window)
        = Max (insert 0 (set [1, 4]))"
    using poll_cursor_invariant [OF h, of "[quiet_world, inbox_world, later_world, inbox_world]"
        quiet_world] range
    unfolding obs by blast
  then show ?thesis using obs by simp
qed

text \<open>
  Counterexample to C2 as stated: the store holds one message for alice whose identifier
  is 2147483648.  Two ticks both receive it, each reads it as -2147483648 and marks that
  identifier delivered, and the cursor is still 0, not the identifier observed.
\<close>

theorem huge_id_counterexample:
  "lastCheckedMessageId alice_window = 0
   \<and> observed_ids [huge_id_world, huge_id_world] alice_window = [2147483648, 2147483648]
   \<and> lastCheckedMessageId (poll_ticks [huge_id_world, huge_id_world] alice_window) = 0
   \<and> delivered_marks (trace (poll_ticks [huge_id_world, huge_id_world] alice_window)) =
       [- 2147483648, - 2147483648]"
  by code_simp

section \<open>Sending\<close>

lemma trimmed_empty_iff: "trimmed str = [] \<longleftrightarrow> (\<forall>c \<in> set str. isSpace c)"
proof -
  have "trimmed str = [] \<longleftrightarrow> dropWhile isSpace (rev (dropWhile isSpace str)) = []"
    by (simp add: trimmed_def)
  also have "\<dots> \<longleftrightarrow> (\<forall>c \<in> set (dropWhile isSpace str). isSpace c)"
    by (simp add: dropWhile_eq_Nil_conv)
  also have "\<dots> \<longleftrightarrow> (\<forall>c \<in> set str. isSpace c)"
  proof
    assume a: "\<forall>c \<in> set (dropWhile isSpace str). isSpace c"
    show "\<forall>c \<in> set str. isSpace c"
    proof (cases "dropWhile isSpace str")
      case Nil
      then show ?thesis by (simp add: dropWhile_eq_Nil_conv)
    next
      case (Cons x xs)
      then have "\<not> isSpace x" using hd_dropWhile [of isSpace str] by simp
      moreover have "isSpace x" using a Cons by simp
      ultimately show ?thesis by simp
    qed
  next
    assume "\<forall>c \<in> set str. isSpace c"
    then show "\<forall>c \<in> set (dropWhile isSpace str). isSpace c"
      using set_dropWhileD by fastforce
  qed
  finally show ?thesis .
qed

text \<open>
  C10.  When the input is empty or holds white space only, the send handler returns the
  window unchanged: no send call, no box, no new entry.
\<close>

theorem send_blank_noop:
  assumes "\<forall>c \<in> set (messageInput s). isSpace c"
  shows "onSendMessage w s = s"
  using assms trimmed_empty_iff [of "messageInput s"] by (simp add: onSendMessage_def)

text \<open>Witness for C10: an input of a blank, a tab and a blank.\<close>

theorem send_blank_noop_witness:
  "list_all isSpace [CHR 0x20, CHR 0x09, CHR 0x20]
   \<and> onSendMessage quiet_world (alice_window\<lparr>messageInput := [CHR 0x20, CHR 0x09, CHR 0x20]\<rparr>)
       = alice_window\<lparr>messageInput := [CHR 0x20, CHR 0x09, CHR 0x20]\<rparr>"
proof -
  have h: "\<forall>c \<in> set (messageInput
             (alice_window\<lparr>messageInput := [CHR 0x20, CHR 0x09, CHR 0x20]\<rparr>)). isSpace c"
    by (simp add: isSpace_def)
  show ?thesis
    using h send_blank_noop [OF h, of quiet_world] by simp
qed

lemma append_recipients_eq: "append_recipients acc rs = acc @ rs"
  by (induction rs arbitrary: acc) simp_all

lemma build_recipients_eq: "build_recipients s = currentContact s # additionalRecipients s"
  by (simp add: build_recipients_def append_recipients_eq)

text \<open>
  C9.  When the trimmed input is not empty and the send call returns a failure code, the
  handler changes nothing but the status label, which reports the failure, and the trace,
  which gains the send call and the critical box: the input keeps its text and the
  display gains no entry.
\<close>

theorem send_failure_keeps_input:
  assumes "trimmed (messageInput s) \<noteq> []"
  shows "(currentContactType s = TYPE_GROUP \<and> 0 \<le> currentGroupId s
          \<and> send_group_message w (currentGroupId s) (trimmed (messageInput s)) \<noteq> 0
          \<longrightarrow> onSendMessage w s =
                s\<lparr>statusLabel := MessageSendFailed,
                  trace := trace s @
                    [SendGroupMessage (currentGroupId s) (trimmed (messageInput s)),
                     CriticalBox ''Send Failed'']\<rparr>)
       \<and> (currentContactType s = TYPE_CONTACT \<and> currentContact s \<noteq> []
          \<and> send_message w (build_recipients s) (trimmed (messageInput s)) \<noteq> 0
          \<longrightarrow> onSendMessage w s =
                s\<lparr>statusLabel := MessageSendFailed,
                  trace := trace s @
                    [SendMessage (build_recipients s) (trimmed (messageInput s)),
                     CriticalBox ''Send Failed'']\<rparr>)"
  using assms by (simp add: onSendMessage_def send_finish_def emit_def Let_def)

text \<open>
  Witness for C9: alice has bob open and typed \<open>hi\<close> followed by a blank; the send call
  fails.
\<close>

theorem send_failure_keeps_input_witness:
  "onSendMessage quiet_world typing_window =
     typing_window\<lparr>statusLabel := MessageSendFailed,
       trace := [SendMessage [''bob''] ''hi'', CriticalBox ''Send Failed'']\<rparr>
   \<and> messageInput (onSendMessage quiet_world typing_window) = ''hi ''"
proof -
  have tr: "trimmed (messageInput typing_window) = ''hi''"
    by (simp add: typing_window_def trimmed_def isSpace_def)
  have h: "trimmed (messageInput typing_window) \<noteq> []" by (simp add: tr)
  have c: "currentContactType typing_window = TYPE_CONTACT \<and> currentContact typing_window \<noteq> []
           \<and> send_message quiet_world (build_recipients typing_window)
                (trimmed (messageInput typing_window)) \<noteq> 0"
    by (simp add: typing_window_def alice_window_def MainWindow_def quiet_world_def)
  have b: "build_recipients typing_window = [''bob'']"
    by (simp add: build_recipients_eq typing_window_def alice_window_def MainWindow_def)
  have t: "trace typing_window = []"
    by (simp add: typing_window_def alice_window_def MainWindow_def)
  have "onSendMessage quiet_world typing_window =
     typing_window\<lparr>statusLabel := MessageSendFailed,
       trace := [SendMessage [''bob''] ''hi'', CriticalBox ''Send Failed'']\<rparr>"
    using send_failure_keeps_input [OF h, of quiet_world] c by (simp add: tr b t)
  then show ?thesis by (simp add: typing_window_def)
qed

section \<open>The recipient set\<close>

lemma item_contact_prefixed: "item_contact (person_symbol @ CHR '' '' # contact) = contact"
  by (simp add: item_contact_def person_symbol_def)

lemma selected_recipients_eq:
  "selected_recipients picks (recipient_items s identities) =
     filter (\<lambda>c. c \<noteq> currentContact s \<and> c \<noteq> currentIdentity s \<and> c \<in> picks) identities"
  by (induction identities) (simp_all add: item_contact_prefixed)

lemma onAddRecipients_accepted:
  assumes "currentContact s \<noteq> []" and "dialog_accepted w"
  shows "additionalRecipients (onAddRecipients w s) =
           (case get_contact_list w of
              Some identities \<Rightarrow>
                filter (\<lambda>c. c \<noteq> currentContact s \<and> c \<noteq> currentIdentity s
                            \<and> c \<in> dialog_selection w) identities
            | None \<Rightarrow> [])
         \<and> currentContact (onAddRecipients w s) = currentContact s
         \<and> currentIdentity (onAddRecipients w s) = currentIdentity s"
proof -
  have r: "recipient_items (emit GetContactList s) = recipient_items s"
    for s
  proof
    fix ids show "recipient_items (emit GetContactList s) ids = recipient_items s ids"
      by (induction ids) (simp_all add: emit_def)
  qed
  show ?thesis
    using assms
    by (simp add: onAddRecipients_def Let_def r selected_recipients_eq emit_def
        split: option.split)
qed

lemma filter_single:
  "distinct xs \<Longrightarrow> a \<in> set xs \<Longrightarrow> filter (\<lambda>c. c = a) xs = [a]"
  by (induction xs) (auto simp: filter_empty_conv)

text \<open>
  C7.  After the add-recipients dialog is accepted, the additional recipients contain
  neither the current contact nor the local identity, whatever the user picked, and the
  recipient list of a send is the current contact followed by them.  With bob as current
  contact, alice as local identity, picks carol and alice, and carol listed once among the
  contacts, that list is bob, carol.
\<close>

theorem recipient_set_excludes:
  assumes "currentContact s \<noteq> []" and "dialog_accepted w"
  shows "currentContact s \<notin> set (additionalRecipients (onAddRecipients w s))
       \<and> currentIdentity s \<notin> set (additionalRecipients (onAddRecipients w s))
       \<and> build_recipients (onAddRecipients w s) =
           currentContact s # additionalRecipients (onAddRecipients w s)
       \<and> (currentContact s = ''bob'' \<and> currentIdentity s = ''alice''
          \<and> dialog_selection w = {''carol'', ''alice''}
          \<and> get_contact_list w = Some identities \<and> distinct identities
          \<and> ''carol'' \<in> set identities
          \<longrightarrow> build_recipients (onAddRecipients w s) = [''bob'', ''carol''])"
proof -
  note a = onAddRecipients_accepted [OF assms]
  have 1: "currentContact s \<notin> set (additionalRecipients (onAddRecipients w s))"
    and 2: "currentIdentity s \<notin> set (additionalRecipients (onAddRecipients w s))"
    using a by (simp_all split: option.split)
  have 3: "build_recipients (onAddRecipients w s) =
           currentContact s # additionalRecipients (onAddRecipients w s)"
    using a by (simp add: build_recipients_eq)
  have 4: "build_recipients (onAddRecipients w s) = [''bob'', ''carol'']"
    if h: "currentContact s = ''bob''" "currentIdentity s = ''alice''"
      "dialog_selection w = {''carol'', ''alice''}"
      "get_contact_list w = Some identities" "distinct identities"
      "''carol'' \<in> set identities"
  proof -
    have "(\<lambda>c. c \<noteq> ''bob'' \<and> c \<noteq> ''alice'' \<and> c \<in> {''carol'', ''alice''})
            = (\<lambda>c. c = ''carol'')"
      by auto
    then have "additionalRecipients (onAddRecipients w s) = filter (\<lambda>c. c = ''carol'') identities"
      using a h by simp
    then show ?thesis using 3 h filter_single [of identities "''carol''"] by simp
  qed
  from 1 2 3 4 show ?thesis by blast
qed

text \<open>
  Witness for C7: the contacts are alice, bob, carol and dave; alice has bob open and picks
  carol and herself.
\<close>

theorem recipient_set_excludes_witness:
  "additionalRecipients (onAddRecipients picking_world bob_window) = [''carol'']
   \<and> build_recipients (onAddRecipients picking_world bob_window) = [''bob'', ''carol'']"
proof -
  have h1: "currentContact bob_window \<noteq> []" and h2: "dialog_accepted picking_world"
    by (simp_all add: bob_window_def picking_world_def)
  have h3: "currentContact bob_window = ''bob'' \<and> currentIdentity bob_window = ''alice''
          \<and> dialog_selection picking_world = {''carol'', ''alice''}
          \<and> get_contact_list picking_world = Some [''alice'', ''bob'', ''carol'', ''dave'']
          \<and> distinct [''alice'', ''bob'', ''carol'', ''dave'']
          \<and> ''carol'' \<in> set [''alice'', ''bob'', ''carol'', ''dave'']"
    by (simp add: bob_window_def alice_window_def MainWindow_def picking_world_def quiet_world_def)
  have b: "build_recipients (onAddRecipients picking_world bob_window) = [''bob'', ''carol'']"
    using recipient_set_excludes [OF h1 h2, of "[''alice'', ''bob'', ''carol'', ''dave'']"] h3
    by blast
  have "build_recipients (onAddRecipients picking_world bob_window) =
          currentContact bob_window # additionalRecipients (onAddRecipients picking_world bob_window)"
    using recipient_set_excludes [OF h1 h2, of "[]"] by blast
  then show ?thesis using b by simp
qed

section \<open>Whole sessions\<close>

text \<open>
  Only the poll tick writes the cursor: in a session of any handlers, the cursor is the
  largest of its first value and the identifiers the poll ticks received, as \<open>atoi\<close>
  read them.
\<close>

lemma loadGroupConversation_cursor:
  "lastCheckedMessageId (loadGroupConversation w g s) = lastCheckedMessageId s"
  by (simp add: loadGroupConversation_eq split: option.split)

lemma loadConversation_cursor:
  "lastCheckedMessageId (loadConversation w c s) = lastCheckedMessageId s"
  by (simp add: loadConversation_quiet)

lemma onContactSelected_cursor:
  "lastCheckedMessageId (onContactSelected w item s) = lastCheckedMessageId s"
  by (simp add: onContactSelected_def Let_def loadConversation_cursor
      loadGroupConversation_cursor emit_def split: option.split contact_type.split)

lemma onRefreshMessages_cursor:
  "lastCheckedMessageId (onRefreshMessages w s) = lastCheckedMessageId s"
  by (simp add: onRefreshMessages_def Let_def loadConversation_cursor
      loadGroupConversation_cursor)

lemma checkForStatusUpdates_cursor:
  "lastCheckedMessageId (checkForStatusUpdates w s) = lastCheckedMessageId s"
  by (simp add: checkForStatusUpdates_def Let_def loadConversation_cursor emit_def
      split: option.split)

lemma onSendMessage_cursor:
  "lastCheckedMessageId (onSendMessage w s) = lastCheckedMessageId s"
  by (simp add: onSendMessage_def Let_def send_finish_def display_append_def emit_def)

lemma onAddRecipients_cursor:
  "lastCheckedMessageId (onAddRecipients w s) = lastCheckedMessageId s"
  by (simp add: onAddRecipients_def Let_def emit_def)

lemma handle_cursor:
  "lastCheckedMessageId (handle a w s) =
     fold max (map atoi (if a = PollTick then map fst (tick_rows w s) else []))
       (lastCheckedMessageId s)"
  by (cases a)
    (simp_all add: tick_cursor checkForStatusUpdates_cursor onContactSelected_cursor
      onRefreshMessages_cursor onSendMessage_cursor onAddRecipients_cursor comp_def)

lemma session_cursor:
  "lastCheckedMessageId (session run s) =
     Max (insert (lastCheckedMessageId s) (atoi ` set (session_ids run s)))"
proof -
  have "lastCheckedMessageId (session run s) =
          fold max (map atoi (session_ids run s)) (lastCheckedMessageId s)"
  proof (induction run arbitrary: s)
    case Nil
    show ?case by simp
  next
    case (Cons step run)
    obtain a w where step: "step = (a, w)" by (cases step)
    show ?case
      using Cons.IH [of "handle a w s"] by (simp add: step handle_cursor)
  qed
  then show ?thesis by (simp add: fold_max_Max)
qed

text \<open>
  Every handler keeps the additional recipients free of the current contact and of the
  local identity; selecting an entry of the contact list empties them.
\<close>

lemma loadConversation_recipients:
  "additionalRecipients (loadConversation w c s) = additionalRecipients s
   \<and> currentContact (loadConversation w c s) = currentContact s
   \<and> currentIdentity (loadConversation w c s) = currentIdentity s"
  by (simp add: loadConversation_eq split: option.split)

lemma loadGroupConversation_recipients:
  "additionalRecipients (loadGroupConversation w c s) = additionalRecipients s
   \<and> currentContact (loadGroupConversation w c s) = currentContact s
   \<and> currentIdentity (loadGroupConversation w c s) = currentIdentity s"
  by (simp add: loadGroupConversation_eq split: option.split)

lemma poll_step_recipients:
  "additionalRecipients (poll_step w row s) = additionalRecipients s
   \<and> currentContact (poll_step w row s) = currentContact s
   \<and> currentIdentity (poll_step w row s) = currentIdentity s"
  by (cases row) (simp add: poll_step_def Let_def loadConversation_recipients emit_def)

lemma poll_loop_recipients:
  "additionalRecipients (poll_loop w rows s) = additionalRecipients s
   \<and> currentContact (poll_loop w rows s) = currentContact s
   \<and> currentIdentity (poll_loop w rows s) = currentIdentity s"
  by (induction rows arbitrary: s) (simp_all add: poll_step_recipients)

lemma handle_recipients_ok:
  assumes ok: "recipients_ok s"
  shows "recipients_ok (handle a w s)"
proof (cases a)
  case PollTick
  show ?thesis
    using ok
    by (simp add: PollTick recipients_ok_def checkForNewMessages_def Let_def
        poll_loop_recipients emit_def split: option.split)
next
  case StatusTick
  show ?thesis
    using ok
    by (simp add: StatusTick recipients_ok_def checkForStatusUpdates_def Let_def
        loadConversation_recipients emit_def split: option.split)
next
  case (ContactSelected item)
  show ?thesis
    using ok
    by (simp add: ContactSelected recipients_ok_def onContactSelected_def Let_def
        loadConversation_recipients loadGroupConversation_recipients emit_def
        split: option.split contact_type.split)
next
  case RefreshMessages
  show ?thesis
    using ok
    by (simp add: RefreshMessages recipients_ok_def onRefreshMessages_def Let_def
        loadConversation_recipients loadGroupConversation_recipients)
next
  case SendClicked
  show ?thesis
    using ok
    by (simp add: SendClicked recipients_ok_def onSendMessage_def Let_def send_finish_def
        display_append_def emit_def)
next
  case AddRecipientsClicked
  show ?thesis
  proof (cases "currentContact s \<noteq> [] \<and> dialog_accepted w")
    case True
    then show ?thesis
      using onAddRecipients_accepted [of s w]
      by (simp add: AddRecipientsClicked recipients_ok_def split: option.split)
  next
    case False
    then show ?thesis using ok
      by (auto simp: AddRecipientsClicked recipients_ok_def onAddRecipients_def Let_def emit_def)
  qed
qed

lemma session_recipients_ok: "recipients_ok s \<Longrightarrow> recipients_ok (session run s)"
proof (induction run arbitrary: s)
  case Nil
  then show ?case by simp
next
  case (Cons step run)
  obtain a w where step: "step = (a, w)" by (cases step)
  show ?case using Cons.IH [OF handle_recipients_ok [OF Cons.prems, of a w]] by (simp add: step)
qed

lemma MainWindow_recipients_ok: "recipients_ok (session run (MainWindow identity theme items))"
  by (rule session_recipients_ok) (simp add: recipients_ok_def MainWindow_def)

end
